theory Spec2Isabelle
  imports Complex_Main "HOL-Library.Sublist"
begin

section \<open>Values shared by the agents\<close>

text \<open>
  An awaited call either resolves to a value or rejects with an error, of which the
  code only ever reads \<open>error.message\<close>. A rejected promise is \<open>Inl\<close> of the message,
  a resolved one is \<open>Inr\<close> of the value. The language model, the vector store and the
  graph library are collaborators outside the repository's code: what each of their
  calls yields is an input of the model.
\<close>

type_synonym err = string

type_synonym 'a outcome = "err + 'a"

text \<open>
  \<open>String.prototype.toLowerCase\<close> and \<open>String.prototype.includes\<close>. A string is a
  list of characters with codes below 256, the Latin-1 range of JavaScript's code
  units. On that range \<open>toLowerCase\<close> lowers the letters \<open>A\<close> to \<open>Z\<close> and the
  accented capitals with codes 192 to 222, the multiplication sign 215 apart, each
  to the character 32 places further, and keeps every other character. All keywords
  the code searches for are ASCII.
\<close>

definition toLowerChar :: "char \<Rightarrow> char" where
  "toLowerChar c =
     (case map_of (zip ''ABCDEFGHIJKLMNOPQRSTUVWXYZ'' ''abcdefghijklmnopqrstuvwxyz'') c of
        Some l \<Rightarrow> l
      | None \<Rightarrow>
          (let code = (of_char c :: nat)
           in if 192 \<le> code \<and> code \<le> 222 \<and> code \<noteq> 215
              then char_of (code + 32) else c))"

definition toLowerCase :: "string \<Rightarrow> string" where
  "toLowerCase s = map toLowerChar s"

fun includesStr :: "string \<Rightarrow> string \<Rightarrow> bool" where
  "includesStr [] kw = (kw = [])"
| "includesStr (c # s) kw = (prefix kw (c # s) \<or> includesStr s kw)"

text \<open>
  Reading \<open>obj[name]\<close> on an object literal. The literal's own keys come first; a
  name it does not have is looked up in \<open>Object.prototype\<close>, where \<open>__proto__\<close>
  answers \<open>Object.prototype\<close> itself and eleven further names answer functions.
  All of these values are truthy. Any other name gives \<open>undefined\<close>, here \<open>None\<close>.
\<close>

datatype 'a property = Own 'a | ObjectPrototype | InheritedFunction

definition objectPrototypeFunctions :: "string list" where
  "objectPrototypeFunctions =
     [''constructor'', ''hasOwnProperty'', ''isPrototypeOf'', ''propertyIsEnumerable'',
      ''toLocaleString'', ''toString'', ''valueOf'', ''__defineGetter__'',
      ''__defineSetter__'', ''__lookupGetter__'', ''__lookupSetter__'']"

definition lookupProperty :: "(string \<Rightarrow> 'a option) \<Rightarrow> string \<Rightarrow> 'a property option" where
  "lookupProperty own name =
     (case own name of
        Some v \<Rightarrow> Some (Own v)
      | None \<Rightarrow>
          if name = ''__proto__'' then Some ObjectPrototype
          else if name \<in> set objectPrototypeFunctions then Some InheritedFunction
          else None)"

section \<open>RAGAgent (src/agents/rag-agent.js)\<close>

text \<open>
  A knowledge-base object carries the three text properties of the schema. A search
  result pairs it with the distance metadata; the objects of \<open>fetchObjects\<close> come
  without any distance, which is \<open>None\<close>.
\<close>

record properties =
  p_fileId :: string
  p_question :: string
  p_answer :: string

record search_result =
  properties :: properties
  distance :: "real option"

record source =
  src_index :: nat
  src_fileId :: string
  src_question :: string
  src_answer :: string
  src_distance :: real

record retrieval_result =
  r_answer :: string
  r_fileIds :: "string list"
  r_sources :: "search_result list"
  r_confidence :: real
  r_resultCount :: nat

text \<open>
  What the collaborators answer during one call of \<open>query\<close>: the vector search, the
  bulk fetch of the fallback, and the single \<open>llmService.invoke\<close> the call makes
  (for the synthesis or for the no-results message). \<open>maxResults\<close> is the configured
  top-k.
\<close>

record rag_env =
  maxResults :: nat
  vectorSearchOut :: "search_result list outcome"
  fetchObjectsOut :: "properties list outcome"
  llmInvokeOut :: "string outcome"

definition fallbackSearch :: "rag_env \<Rightarrow> string \<Rightarrow> search_result list" where
  "fallbackSearch env query =
     (case fetchObjectsOut env of
        Inl e \<Rightarrow> []
      | Inr allObjects \<Rightarrow>
          (let queryLower = toLowerCase query;
               matches = filter (\<lambda>obj.
                   includesStr (toLowerCase (p_question obj)) queryLower
                 \<or> includesStr (toLowerCase (p_answer obj)) queryLower) allObjects
           in map (\<lambda>obj. \<lparr>properties = obj, distance = None\<rparr>)
                (take (maxResults env) matches)))"

definition vectorSearch :: "rag_env \<Rightarrow> string \<Rightarrow> search_result list" where
  "vectorSearch env query =
     (case vectorSearchOut env of
        Inr results \<Rightarrow> results
      | Inl e \<Rightarrow> fallbackSearch env query)"

text \<open>\<open>result.distance || 0\<close>: a missing distance counts as 0.\<close>

definition distanceOrZero :: "search_result \<Rightarrow> real" where
  "distanceOrZero r = (case distance r of None \<Rightarrow> 0 | Some d \<Rightarrow> d)"

fun extractSourcesFrom :: "nat \<Rightarrow> search_result list \<Rightarrow> source list" where
  "extractSourcesFrom i [] = []"
| "extractSourcesFrom i (result # results) =
     \<lparr>src_index = i + 1,
      src_fileId = p_fileId (properties result),
      src_question = p_question (properties result),
      src_answer = p_answer (properties result),
      src_distance = distanceOrZero result\<rparr> # extractSourcesFrom (i + 1) results"

definition extractSources :: "search_result list \<Rightarrow> source list" where
  "extractSources results = extractSourcesFrom 0 results"

text \<open>\<open>[...new Set(ids)]\<close>: the first occurrence of each element, in order.\<close>

fun unique :: "'a list \<Rightarrow> 'a list" where
  "unique [] = []"
| "unique (x # xs) = x # unique (filter (\<lambda>y. y \<noteq> x) xs)"

text \<open>\<open>.filter(id => id)\<close> drops the falsy ids; for a string that is the empty one.\<close>

definition extractFileIds :: "search_result list \<Rightarrow> string list" where
  "extractFileIds results =
     unique (filter (\<lambda>id. id \<noteq> []) (map (\<lambda>r. p_fileId (properties r)) results))"

definition calculateConfidence :: "search_result list \<Rightarrow> real" where
  "calculateConfidence results =
     (case results of
        [] \<Rightarrow> 0
      | first # rest \<Rightarrow>
          (let bestDistance = distanceOrZero first
           in max 0 (min 1 (1 - bestDistance / 2))))"

definition synthesizeAnswer :: "rag_env \<Rightarrow> string \<Rightarrow> source list \<Rightarrow> string outcome" where
  "synthesizeAnswer env query sources =
     (case llmInvokeOut env of
        Inr answer \<Rightarrow> Inr answer
      | Inl e \<Rightarrow>
          (case sources of
             best # others \<Rightarrow> Inr (src_answer best)
           | [] \<Rightarrow> Inl e))"

definition hardCodedApology :: string where
  "hardCodedApology =
     ''I couldn't find specific information about that in our knowledge base. Please contact HR or IT support for assistance.''"

definition handleNoResults :: "rag_env \<Rightarrow> string \<Rightarrow> retrieval_result" where
  "handleNoResults env query =
     (case llmInvokeOut env of
        Inr answer \<Rightarrow>
          \<lparr>r_answer = answer, r_fileIds = [], r_sources = [],
           r_confidence = 0, r_resultCount = 0\<rparr>
      | Inl e \<Rightarrow>
          \<lparr>r_answer = hardCodedApology, r_fileIds = [], r_sources = [],
           r_confidence = 0, r_resultCount = 0\<rparr>)"

text \<open>
  \<open>query\<close> wraps its body in a \<open>try\<close> whose \<open>catch\<close> logs and throws the error again,
  so an error of \<open>synthesizeAnswer\<close> is the error of \<open>query\<close>.
\<close>

definition query :: "rag_env \<Rightarrow> string \<Rightarrow> retrieval_result outcome" where
  "query env userQuery =
     (let searchResults = vectorSearch env userQuery
      in if searchResults = [] then Inr (handleNoResults env userQuery)
         else
           (let sources = extractSources searchResults;
                fileIds = extractFileIds searchResults;
                confidence = calculateConfidence searchResults
            in case synthesizeAnswer env userQuery sources of
                 Inl e \<Rightarrow> Inl e
               | Inr answer \<Rightarrow>
                   Inr \<lparr>r_answer = answer, r_fileIds = fileIds, r_sources = searchResults,
                        r_confidence = confidence,
                        r_resultCount = length searchResults\<rparr>))"

section \<open>ChartTool (src/tools/chart-tool.js)\<close>

text \<open>
  The catalog \<open>CHART_TEMPLATES\<close> is an object literal with six entries. Their
  contents are fixed Chart.js objects that no caller inspects, so a template is
  identified by its key. A chart configuration is a copy of a template or, for the
  name \<open>__proto__\<close>, the empty object that the JSON copy of \<open>Object.prototype\<close>
  gives.
\<close>

datatype template =
  employeeAttendance | leaveBalance | departmentDistribution
| performanceMetrics | wellnessUsage | remoteWorkTrends

datatype chart_config = Template template | EmptyObject

definition templates :: "string \<Rightarrow> template option" where
  "templates = map_of
     [(''employeeAttendance'', employeeAttendance),
      (''leaveBalance'', leaveBalance),
      (''departmentDistribution'', departmentDistribution),
      (''performanceMetrics'', performanceMetrics),
      (''wellnessUsage'', wellnessUsage),
      (''remoteWorkTrends'', remoteWorkTrends)]"

text \<open>
  The argument of \<open>generateChart\<close>. A property the caller left out is \<open>undefined\<close>,
  here \<open>None\<close>; calling \<open>toLowerCase\<close> on it throws a TypeError.
\<close>

record chart_input =
  ci_context :: "string option"
  ci_ragContext :: "string option"

definition keywordBasedSelection :: "string option \<Rightarrow> string outcome" where
  "keywordBasedSelection queryText =
     (case queryText of
        None \<Rightarrow> Inl ''Cannot read properties of undefined (reading 'toLowerCase')''
      | Some q \<Rightarrow>
          (let queryLower = toLowerCase q
           in if includesStr queryLower ''attendance'' then Inr ''employeeAttendance''
              else if includesStr queryLower ''leave'' \<or> includesStr queryLower ''vacation''
                then Inr ''leaveBalance''
              else if includesStr queryLower ''department''
                    \<or> includesStr queryLower ''distribution''
                then Inr ''departmentDistribution''
              else if includesStr queryLower ''performance'' \<or> includesStr queryLower ''metric''
                then Inr ''performanceMetrics''
              else if includesStr queryLower ''wellness'' \<or> includesStr queryLower ''benefit''
                then Inr ''wellnessUsage''
              else if includesStr queryLower ''remote''
                    \<or> includesStr queryLower ''work from home''
                then Inr ''remoteWorkTrends''
              else Inr ''employeeAttendance''))"

text \<open>
  \<open>llmService.invokeJSON\<close> (the LLM service, second part of src/config.js) sends
  the prompt to the language model and parses the reply with \<open>JSON.parse\<close>; it
  throws when the model call fails and when the reply is not JSON. What the model
  replies is an input, so the outcome of the call is one: \<open>Inl\<close> when the call
  throws (or yields a value whose \<open>chartTemplate\<close> cannot be read, which throws
  inside the same \<open>try\<close>), \<open>Inr\<close> of the \<open>chartTemplate\<close> property of the parsed
  object otherwise, \<open>None\<close> when the object has no such property.
\<close>

definition selectChartTemplate :: "string option outcome \<Rightarrow> string option \<Rightarrow> string outcome" where
  "selectChartTemplate selectionOut queryText =
     (case selectionOut of
        Inr response \<Rightarrow>
          (case response of
             Some name \<Rightarrow>
               if name \<noteq> [] \<and> lookupProperty templates name \<noteq> None then Inr name
               else Inr ''employeeAttendance''
           | None \<Rightarrow> Inr ''employeeAttendance'')
      | Inl e \<Rightarrow> keywordBasedSelection queryText)"

text \<open>
  \<open>JSON.parse(JSON.stringify(template))\<close>: a template is copied,
  \<open>Object.prototype\<close> has no enumerable property and becomes the empty object, and
  for a function \<open>JSON.stringify\<close> gives \<open>undefined\<close>, which \<open>JSON.parse\<close> rejects
  with a SyntaxError.
\<close>

definition jsonCopy :: "template property \<Rightarrow> chart_config outcome" where
  "jsonCopy p =
     (case p of
        Own t \<Rightarrow> Inr (Template t)
      | ObjectPrototype \<Rightarrow> Inr EmptyObject
      | InheritedFunction \<Rightarrow> Inl ''Unexpected token u in JSON at position 0'')"

text \<open>
  \<open>generateChart\<close> runs in a \<open>try\<close> whose \<open>catch\<close> returns the default template, as
  does the test \<open>if (!template)\<close>.
\<close>

definition generateChart :: "chart_input \<Rightarrow> string option outcome \<Rightarrow> chart_config outcome" where
  "generateChart inp selectionOut =
     (case selectChartTemplate selectionOut (ci_context inp) of
        Inl e \<Rightarrow> Inr (Template employeeAttendance)
      | Inr chartTemplate \<Rightarrow>
          (case lookupProperty templates chartTemplate of
             None \<Rightarrow> Inr (Template employeeAttendance)
           | Some p \<Rightarrow>
               (case jsonCopy p of
                  Inl e \<Rightarrow> Inr (Template employeeAttendance)
                | Inr copy \<Rightarrow> Inr copy)))"

section \<open>DelegatingAgent (the delegating agent, src/unnamed/part_001)\<close>

record references =
  rag :: bool
  chart :: bool

text \<open>The channels of \<open>AgentState\<close>; \<open>null\<close> is \<open>None\<close>.\<close>

record agent_state =
  s_input :: string
  s_intent :: string
  s_confidence :: real
  s_ragResults :: "retrieval_result option"
  s_chartConfig :: "chart_config option"
  s_answer :: string
  s_references :: references
  s_fileIds :: "string list"
  s_errors :: "string list"

text \<open>
  What a node returns: a value for some of the channels. \<open>None\<close> stands for a key
  that is left out and for \<open>null\<close> or \<open>undefined\<close>, which the reducers treat alike.
  No node writes \<open>input\<close>.
\<close>

record update =
  u_intent :: "string option"
  u_confidence :: "real option"
  u_ragResults :: "retrieval_result option"
  u_chartConfig :: "chart_config option"
  u_answer :: "string option"
  u_references :: "references option"
  u_fileIds :: "string list option"
  u_errors :: "string list option"

definition noUpdate :: update where
  "noUpdate = \<lparr>u_intent = None, u_confidence = None, u_ragResults = None,
     u_chartConfig = None, u_answer = None, u_references = None, u_fileIds = None,
     u_errors = None\<rparr>"

text \<open>Every channel has the reducer \<open>(x, y) => y ?? x\<close>.\<close>

definition reducer :: "'a \<Rightarrow> 'a option \<Rightarrow> 'a" where
  "reducer x y = (case y of None \<Rightarrow> x | Some v \<Rightarrow> v)"

definition applyUpdate :: "agent_state \<Rightarrow> update \<Rightarrow> agent_state" where
  "applyUpdate s u =
     \<lparr>s_input = s_input s,
      s_intent = reducer (s_intent s) (u_intent u),
      s_confidence = reducer (s_confidence s) (u_confidence u),
      s_ragResults = reducer (s_ragResults s) (map_option Some (u_ragResults u)),
      s_chartConfig = reducer (s_chartConfig s) (map_option Some (u_chartConfig u)),
      s_answer = reducer (s_answer s) (u_answer u),
      s_references = reducer (s_references s) (u_references u),
      s_fileIds = reducer (s_fileIds s) (u_fileIds u),
      s_errors = reducer (s_errors s) (u_errors u)\<rparr>"

text \<open>
  The object parsed from the classifier's reply: its \<open>intent\<close> and \<open>confidence\<close>
  properties, \<open>None\<close> where the object has none.
\<close>

record classification =
  c_intent :: "string option"
  c_confidence :: "real option"

definition chartKeywords :: "string list" where
  "chartKeywords = [''chart'', ''graph'', ''visualize'', ''plot'', ''show me'', ''display'']"

definition ragKeywords :: "string list" where
  "ragKeywords =
     [''policy'', ''procedure'', ''how do i'', ''what is'', ''tell me about'', ''explain'']"

definition fallbackIntentClassification :: "string \<Rightarrow> classification" where
  "fallbackIntentClassification queryText =
     (let queryLower = toLowerCase queryText;
          hasChart = list_ex (\<lambda>kw. includesStr queryLower kw) chartKeywords;
          hasRAG = list_ex (\<lambda>kw. includesStr queryLower kw) ragKeywords
      in if hasRAG \<and> hasChart then \<lparr>c_intent = Some ''both'', c_confidence = Some 0.6\<rparr>
         else if hasChart then \<lparr>c_intent = Some ''chart'', c_confidence = Some 0.6\<rparr>
         else if hasRAG then \<lparr>c_intent = Some ''rag'', c_confidence = Some 0.6\<rparr>
         else \<lparr>c_intent = Some ''direct'', c_confidence = Some 0.5\<rparr>)"

text \<open>
  \<open>analyzeIntent\<close>: the outcome of \<open>llmService.invokeJSON\<close> on the classification
  prompt is an input. \<open>Inl\<close> is every way the \<open>try\<close> block throws: the model call
  fails, the reply is not JSON and \<open>JSON.parse\<close> throws, or the parsed value is
  \<open>null\<close>.
\<close>

definition analyzeIntent :: "classification outcome \<Rightarrow> agent_state \<Rightarrow> update" where
  "analyzeIntent classifyOut state =
     (case classifyOut of
        Inr c \<Rightarrow> noUpdate\<lparr>u_intent := c_intent c, u_confidence := c_confidence c\<rparr>
      | Inl e \<Rightarrow>
          (let fallbackIntent = fallbackIntentClassification (s_input state)
           in noUpdate\<lparr>u_intent := c_intent fallbackIntent,
                u_confidence := c_confidence fallbackIntent\<rparr>))"

text \<open>
  What \<open>routeByIntent\<close> returns: the name of one of the four nodes or, when the
  intent is a name that \<open>routeMap\<close> inherits from \<open>Object.prototype\<close>, the inherited
  value, which is not the name of a node.
\<close>

datatype route =
  ToRagAgentNode | ToChartToolNode | ToRagAndChartNode | ToDirectResponseNode | NotANodeName

definition confidenceThreshold :: real where
  "confidenceThreshold = 0.7"

definition routeMap :: "string \<Rightarrow> route option" where
  "routeMap = map_of
     [(''rag'', ToRagAgentNode),
      (''chart'', ToChartToolNode),
      (''both'', ToRagAndChartNode),
      (''direct'', ToDirectResponseNode)]"

definition routeByIntent :: "agent_state \<Rightarrow> route" where
  "routeByIntent state =
     (if s_confidence state < confidenceThreshold then ToDirectResponseNode
      else (case lookupProperty routeMap (s_intent state) of
              Some (Own r) \<Rightarrow> r
            | Some ObjectPrototype \<Rightarrow> NotANodeName
            | Some InheritedFunction \<Rightarrow> NotANodeName
            | None \<Rightarrow> ToDirectResponseNode))"

text \<open>
  The tool nodes are written against \<open>ragAgent.query\<close> and \<open>chartTool.generateChart\<close>
  and catch whatever those calls throw, so each node takes the outcomes of its calls.
\<close>

definition ragAgentNode :: "retrieval_result outcome \<Rightarrow> update" where
  "ragAgentNode ragOut =
     (case ragOut of
        Inr results \<Rightarrow>
          noUpdate\<lparr>u_ragResults := Some results,
            u_answer := Some (r_answer results),
            u_references := Some \<lparr>rag = True, chart = False\<rparr>,
            u_fileIds := Some (r_fileIds results)\<rparr>
      | Inl e \<Rightarrow>
          noUpdate\<lparr>u_answer :=
              Some ''I encountered an error querying the knowledge base. Please try again.'',
            u_references := Some \<lparr>rag = False, chart = False\<rparr>,
            u_fileIds := Some [],
            u_errors := Some [e]\<rparr>)"

definition chartToolNode :: "chart_config outcome \<Rightarrow> update" where
  "chartToolNode chartOut =
     (case chartOut of
        Inr chartConfig \<Rightarrow>
          noUpdate\<lparr>u_chartConfig := Some chartConfig,
            u_answer := Some ''I've generated a chart for you based on your request.'',
            u_references := Some \<lparr>rag = False, chart = True\<rparr>\<rparr>
      | Inl e \<Rightarrow>
          noUpdate\<lparr>u_answer :=
              Some ''I encountered an error generating the chart. Please try again.'',
            u_references := Some \<lparr>rag = False, chart = False\<rparr>,
            u_errors := Some [e]\<rparr>)"

text \<open>
  \<open>Promise.all\<close> resolves when both calls resolve and rejects as soon as one of them
  rejects, with that call's error; when both reject the model takes the error of the
  first array element. The \<open>catch\<close> block then calls \<open>ragAgent.query\<close> once more:
  \<open>ragAgain\<close> is the outcome of that second call.
\<close>

definition ragAndChartNode ::
  "retrieval_result outcome \<Rightarrow> chart_config outcome \<Rightarrow> retrieval_result outcome \<Rightarrow> update" where
  "ragAndChartNode ragOut chartOut ragAgain =
     (let fallbackNode = (\<lambda>error.
            case ragAgain of
              Inr ragResults \<Rightarrow>
                noUpdate\<lparr>u_ragResults := Some ragResults,
                  u_answer := Some (r_answer ragResults),
                  u_references := Some \<lparr>rag = True, chart = False\<rparr>,
                  u_fileIds := Some (r_fileIds ragResults),
                  u_errors := Some [''Chart generation failed'']\<rparr>
            | Inl ragError \<Rightarrow>
                noUpdate\<lparr>u_answer :=
                    Some ''I encountered an error processing your request. Please try again.'',
                  u_references := Some \<lparr>rag = False, chart = False\<rparr>,
                  u_errors := Some [error, ragError]\<rparr>)
      in case ragOut of
           Inl error \<Rightarrow> fallbackNode error
         | Inr ragResults \<Rightarrow>
             (case chartOut of
                Inl error \<Rightarrow> fallbackNode error
              | Inr chartConfig \<Rightarrow>
                  noUpdate\<lparr>u_ragResults := Some ragResults,
                    u_chartConfig := Some chartConfig,
                    u_answer := Some (r_answer ragResults @ [CHR 0x0A, CHR 0x0A]
                      @ ''I've also generated a visualization for you.''),
                    u_references := Some \<lparr>rag = True, chart = True\<rparr>,
                    u_fileIds := Some (r_fileIds ragResults)\<rparr>))"

definition directResponseNode :: "string outcome \<Rightarrow> update" where
  "directResponseNode directOut =
     (case directOut of
        Inr answer \<Rightarrow>
          noUpdate\<lparr>u_answer := Some answer,
            u_references := Some \<lparr>rag = False, chart = False\<rparr>\<rparr>
      | Inl e \<Rightarrow>
          noUpdate\<lparr>u_answer := Some ''I'm sorry, I encountered an error. Please try again.'',
            u_references := Some \<lparr>rag = False, chart = False\<rparr>,
            u_errors := Some [e]\<rparr>)"

text \<open>
  An object handed to the caller of \<open>process\<close>, by the keys a caller reads:
  \<open>fileIds\<close> is \<open>None\<close> when the object has no such key, \<open>chartConfig\<close> is \<open>None\<close>
  when the key is missing or \<open>null\<close>, and \<open>otherKeys\<close> names the remaining keys.
\<close>

record response =
  answer :: string
  references :: references
  fileIds :: "string list option"
  chartConfig :: "chart_config option"
  otherKeys :: "string list"

definition formatResponseNode :: "agent_state \<Rightarrow> response" where
  "formatResponseNode state =
     \<lparr>answer = (if s_answer state \<noteq> [] then s_answer state else ''No answer generated.''),
      references = s_references state,
      fileIds = (if rag (s_references state) \<and> s_fileIds state \<noteq> []
                 then Some (s_fileIds state) else None),
      chartConfig = (if chart (s_references state) then s_chartConfig state else None),
      otherKeys = []\<rparr>"

section \<open>The graph and \<open>process\<close>\<close>

text \<open>
  What the collaborators answer during one request. \<open>ragEnv\<close> serves the first call
  of \<open>ragAgent.query\<close>, \<open>ragEnvAgain\<close> the second call that \<open>ragAndChartNode\<close> makes
  in its \<open>catch\<close> block. \<open>graphFault\<close> is a rejection of \<open>graph.invoke\<close> that does
  not come from a node: every node catches its own errors.
\<close>

record world =
  initializeOut :: "unit outcome"
  graphFault :: "err option"
  classifyOut :: "classification outcome"
  ragEnv :: rag_env
  ragEnvAgain :: rag_env
  chartSelectionOut :: "string option outcome"
  directOut :: "string outcome"

definition initialState :: "string \<Rightarrow> agent_state" where
  "initialState userQuery =
     \<lparr>s_input = userQuery, s_intent = [], s_confidence = 0, s_ragResults = None,
      s_chartConfig = None, s_answer = [], s_references = \<lparr>rag = False, chart = False\<rparr>,
      s_fileIds = [], s_errors = []\<rparr>"

definition runBranch :: "world \<Rightarrow> agent_state \<Rightarrow> update" where
  "runBranch w state =
     (let chartInput = \<lparr>ci_context = Some (s_input state), ci_ragContext = None\<rparr>
      in case routeByIntent state of
           ToRagAgentNode \<Rightarrow> ragAgentNode (query (ragEnv w) (s_input state))
         | ToChartToolNode \<Rightarrow> chartToolNode (generateChart chartInput (chartSelectionOut w))
         | ToRagAndChartNode \<Rightarrow>
             ragAndChartNode (query (ragEnv w) (s_input state))
               (generateChart chartInput (chartSelectionOut w))
               (query (ragEnvAgain w) (s_input state))
         | ToDirectResponseNode \<Rightarrow> directResponseNode (directOut w)
         | NotANodeName \<Rightarrow> noUpdate)"

text \<open>
  The graph built by \<open>buildGraph\<close>: \<open>analyzeIntent\<close>, then the node chosen by
  \<open>routeByIntent\<close>, then \<open>formatResponse\<close>, then the end. The library folds what each
  node returns into the state with the reducer of each channel. \<open>beforeFormat\<close> is
  the state that \<open>formatResponseNode\<close> receives. When \<open>routeByIntent\<close> returns no
  node name, no further node runs, \<open>formatResponse\<close> included, and \<open>beforeFormat\<close> is
  the state the graph ends with.
\<close>

definition beforeFormat :: "world \<Rightarrow> agent_state \<Rightarrow> agent_state" where
  "beforeFormat w state0 =
     (let state1 = applyUpdate state0 (analyzeIntent (classifyOut w) state0)
      in applyUpdate state1 (runBranch w state1))"

text \<open>
  \<open>formatResponse\<close> is a node like the others: the object it returns is folded into
  the state, key by key, and \<open>graph.invoke\<close> resolves to the state the graph ends
  with.
\<close>

definition asUpdate :: "response \<Rightarrow> update" where
  "asUpdate r =
     noUpdate\<lparr>u_answer := Some (answer r), u_references := Some (references r),
       u_fileIds := fileIds r, u_chartConfig := chartConfig r\<rparr>"

definition graphInvoke :: "world \<Rightarrow> agent_state \<Rightarrow> agent_state outcome" where
  "graphInvoke w state0 =
     (case graphFault w of
        Some e \<Rightarrow> Inl e
      | None \<Rightarrow>
          (let state1 = applyUpdate state0 (analyzeIntent (classifyOut w) state0);
               state2 = beforeFormat w state0
           in if routeByIntent state1 = NotANodeName then Inr state2
              else Inr (applyUpdate state2 (asUpdate (formatResponseNode state2)))))"

text \<open>The final state as the object the caller of \<open>process\<close> receives.\<close>

definition stateObject :: "agent_state \<Rightarrow> response" where
  "stateObject state =
     \<lparr>answer = s_answer state, references = s_references state,
      fileIds = Some (s_fileIds state), chartConfig = s_chartConfig state,
      otherKeys = [''input'', ''intent'', ''confidence'', ''ragResults'', ''errors'']\<rparr>"

definition errorResponse :: "err \<Rightarrow> response" where
  "errorResponse message =
     \<lparr>answer = ''I apologize, but I encountered an error processing your request: '' @ message,
      references = \<lparr>rag = False, chart = False\<rparr>,
      fileIds = None, chartConfig = None, otherKeys = []\<rparr>"

definition process :: "world \<Rightarrow> string \<Rightarrow> response" where
  "process w userQuery =
     (case initializeOut w of
        Inl e \<Rightarrow> errorResponse e
      | Inr u \<Rightarrow>
          (case graphInvoke w (initialState userQuery) of
             Inl e \<Rightarrow> errorResponse e
           | Inr result \<Rightarrow> stateObject result))"

section \<open>validateResponseContract (the formatter utility, at the end of src/tools/chart-tool.js)\<close>

text \<open>
  The errors the validator collects. It tests \<open>response.fileIds\<close> and
  \<open>response.chartConfig\<close> for truthiness: an array is truthy even when empty,
  \<open>null\<close> and a missing key are not. Its checks that \<open>references\<close> is an object
  with two boolean flags and that \<open>fileIds\<close> is an array hold by the types of the
  record. Unexpected keys are only logged. The validator throws when it has collected
  an error.
\<close>

definition contractErrors :: "response \<Rightarrow> string list" where
  "contractErrors r =
     (if answer r = [] then [''Missing or invalid field: answer (must be string)''] else [])
     @ (case fileIds r of
          None \<Rightarrow> []
        | Some ids \<Rightarrow>
            if \<not> rag (references r)
            then [''Contract violation: fileIds present but references.rag is false'']
            else [])
     @ (case chartConfig r of
          None \<Rightarrow> []
        | Some c \<Rightarrow>
            if \<not> chart (references r)
            then [''Contract violation: chartConfig present but references.chart is false'']
            else [])"

definition validateResponseContract :: "response \<Rightarrow> bool outcome" where
  "validateResponseContract r =
     (if contractErrors r \<noteq> [] then Inl ''Response contract validation failed''
      else Inr True)"

section \<open>The specification's wording\<close>





text \<open>
  The specification's keyword rule of the classifier: which of the two word sets has
  a member that occurs in the lower-cased query.
\<close>

definition visualizationWords :: "string set" where
  "visualizationWords =
     {''chart'', ''graph'', ''visualize'', ''plot'', ''show me'', ''display''}"

definition knowledgeWords :: "string set" where
  "knowledgeWords =
     {''policy'', ''procedure'', ''how do i'', ''what is'', ''tell me about'', ''explain''}"

definition matchesAny :: "string set \<Rightarrow> string \<Rightarrow> bool" where
  "matchesAny ws q = (\<exists>kw\<in>ws. \<exists>before after. toLowerCase q = before @ kw @ after)"

definition keywordRule :: "string \<Rightarrow> string \<times> real" where
  "keywordRule q =
     (if matchesAny visualizationWords q \<and> matchesAny knowledgeWords q then (''both'', 0.6)
      else if matchesAny visualizationWords q then (''chart'', 0.6)
      else if matchesAny knowledgeWords q then (''rag'', 0.6)
      else (''direct'', 0.5))"

section \<open>The response object and the records behind it\<close>

text \<open>
  \<open>assembled\<close> is the object that \<open>formatResponseNode\<close> builds during a request,
  \<open>retrieved\<close> the records of the retrieval whose result the state holds at that
  point (none when no retrieval ran or the retrieval failed).
\<close>

definition assembled :: "world \<Rightarrow> string \<Rightarrow> response" where
  "assembled w userQuery = formatResponseNode (beforeFormat w (initialState userQuery))"

definition retrieved :: "world \<Rightarrow> string \<Rightarrow> search_result list" where
  "retrieved w userQuery =
     (case s_ragResults (beforeFormat w (initialState userQuery)) of
        None \<Rightarrow> []
      | Some results \<Rightarrow> r_sources results)"

section \<open>Example inputs\<close>

definition leaveRecord :: search_result where
  "leaveRecord =
     \<lparr>properties = \<lparr>p_fileId = ''HR-001'',
        p_question = ''What is the company leave policy?'',
        p_answer = ''Employees are entitled to 20 days of paid annual leave per year.''\<rparr>,
      distance = Some 0.2\<rparr>"

definition untaggedRecord :: search_result where
  "untaggedRecord =
     \<lparr>properties = \<lparr>p_fileId = [],
        p_question = ''How do I reset my password?'',
        p_answer = ''Use the self-service portal.''\<rparr>,
      distance = Some 1\<rparr>"

definition leaveEnv :: rag_env where
  "leaveEnv =
     \<lparr>maxResults = 3, vectorSearchOut = Inr [leaveRecord], fetchObjectsOut = Inr [],
      llmInvokeOut = Inr ''You have 20 days of paid annual leave.''\<rparr>"

definition emptyEnv :: rag_env where
  "emptyEnv =
     \<lparr>maxResults = 3, vectorSearchOut = Inr [], fetchObjectsOut = Inr [],
      llmInvokeOut = Inl ''quota exceeded''\<rparr>"

definition leaveWorld :: world where
  "leaveWorld =
     \<lparr>initializeOut = Inr (), graphFault = None,
      classifyOut = Inr \<lparr>c_intent = Some ''rag'', c_confidence = Some 0.92\<rparr>,
      ragEnv = leaveEnv, ragEnvAgain = leaveEnv,
      chartSelectionOut = Inr (Some ''leaveBalance''),
      directOut = Inr ''5 x 7 equals 35''\<rparr>"

definition directWorld :: world where
  "directWorld =
     leaveWorld\<lparr>classifyOut := Inr \<lparr>c_intent = Some ''direct'', c_confidence = Some 0.95\<rparr>\<rparr>"

definition untaggedWorld :: world where
  "untaggedWorld = leaveWorld\<lparr>ragEnv := leaveEnv\<lparr>vectorSearchOut := Inr [untaggedRecord]\<rparr>\<rparr>"

definition leaveResult :: retrieval_result where
  "leaveResult =
     \<lparr>r_answer = ''You have 20 days of paid annual leave.'', r_fileIds = [''HR-001''],
      r_sources = [leaveRecord], r_confidence = 0.9, r_resultCount = 1\<rparr>"

definition apologyResult :: retrieval_result where
  "apologyResult =
     \<lparr>r_answer = hardCodedApology, r_fileIds = [], r_sources = [],
      r_confidence = 0, r_resultCount = 0\<rparr>"

definition classifierDownWorld :: world where
  "classifierDownWorld = leaveWorld\<lparr>classifyOut := Inl ''503 Service Unavailable''\<rparr>"

text \<open>
  The words \<open>keywordBasedSelection\<close> looks for that lead to another template than
  \<open>employeeAttendance\<close>.
\<close>

definition selectionKeywords :: "string list" where
  "selectionKeywords =
     [''leave'', ''vacation'', ''department'', ''distribution'', ''performance'',
      ''metric'', ''wellness'', ''benefit'', ''remote'', ''work from home'']"

section \<open>Facts about the retrieval agent\<close>

lemma includesStr_iff: "includesStr s kw \<longleftrightarrow> (\<exists>before after. s = before @ kw @ after)"
proof -
  have "includesStr s kw \<longleftrightarrow> sublist kw s"
    by (induction s) (simp_all add: sublist_Cons_right)
  then show ?thesis
    by (simp add: sublist_def)
qed

lemma unique_Nil_iff: "unique xs = [] \<longleftrightarrow> xs = []"
  by (cases xs) simp_all

lemma extractFileIds_Nil_iff:
  "extractFileIds rs \<noteq> [] \<longleftrightarrow> (\<exists>x\<in>set rs. p_fileId (properties x) \<noteq> [])"
  by (auto simp: extractFileIds_def unique_Nil_iff filter_empty_conv)

text \<open>
  The two ways \<open>query\<close> ends: with the no-results object when the search found
  nothing, and otherwise with an object built from the records found, whose answer is
  the model's text or, when the model failed, the answer of the first record.
\<close>

lemma query_cases:
  "query env q =
     (if vectorSearch env q = [] then Inr (handleNoResults env q)
      else Inr \<lparr>r_answer = (case llmInvokeOut env of
                    Inr a \<Rightarrow> a
                  | Inl e \<Rightarrow> p_answer (properties (hd (vectorSearch env q)))),
             r_fileIds = extractFileIds (vectorSearch env q),
             r_sources = vectorSearch env q,
             r_confidence = calculateConfidence (vectorSearch env q),
             r_resultCount = length (vectorSearch env q)\<rparr>)"
  by (cases "vectorSearch env q")
     (auto simp: query_def Let_def synthesizeAnswer_def extractSources_def split: sum.splits)

lemma query_resolves: "\<exists>r. query env q = Inr r"
  by (simp add: query_cases)

lemma query_fileIds:
  assumes "query env q = Inr r"
  shows "r_fileIds r = extractFileIds (r_sources r)"
  using assms
  by (auto simp: query_cases handleNoResults_def extractFileIds_def split: if_splits sum.splits)

text \<open>
  C4. \<open>RAGAgent.query\<close> never fails: whatever the vector search, the bulk fetch and
  the language model answer or throw, the call resolves to a result object. Its answer
  is the model's text, the answer of the first record found, or the hard-coded
  apology.
\<close>

theorem query_never_fails:
  "\<exists>r. query env userQuery = Inr r \<and>
     (r_answer r = hardCodedApology
      \<or> llmInvokeOut env = Inr (r_answer r)
      \<or> (\<exists>first rest. vectorSearch env userQuery = first # rest
            \<and> r_answer r = p_answer (properties first)))"
  by (cases "vectorSearch env userQuery"; cases "llmInvokeOut env")
     (auto simp: query_cases handleNoResults_def)

text \<open>
  C6. A result of \<open>query\<close> whose \<open>resultCount\<close> is 0 has confidence 0 and no file
  ids; the no-results object has these three values whether the model wrote the
  apology or the hard-coded one is used.
\<close>

theorem zero_results_zero_confidence:
  "(query env userQuery = Inr r \<and> r_resultCount r = 0
      \<longrightarrow> r_confidence r = 0 \<and> r_fileIds r = [])
   \<and> r_resultCount (handleNoResults env userQuery) = 0
   \<and> r_confidence (handleNoResults env userQuery) = 0
   \<and> r_fileIds (handleNoResults env userQuery) = []"
  by (auto simp: query_cases handleNoResults_def split: if_splits sum.splits)

theorem zero_results_zero_confidence_witness:
  "query emptyEnv ''What is the weather today?'' = Inr apologyResult
   \<and> r_resultCount apologyResult = 0
   \<and> r_confidence apologyResult = 0
   \<and> r_fileIds apologyResult = []"
proof -
  have q: "query emptyEnv ''What is the weather today?'' = Inr apologyResult"
    by (simp add: query_def vectorSearch_def handleNoResults_def emptyEnv_def apologyResult_def)
  have n: "r_resultCount apologyResult = 0"
    by (simp add: apologyResult_def)
  show ?thesis
    using q n
      zero_results_zero_confidence [of emptyEnv "''What is the weather today?''" apologyResult]
    by simp
qed






section \<open>Facts about the chart tool\<close>

lemma generateChart_resolves: "\<exists>c. generateChart inp selectionOut = Inr c"
  by (auto simp: generateChart_def split: sum.splits option.splits)

lemma lookupProperty_own: "templates name = Some t \<Longrightarrow> lookupProperty templates name = Some (Own t)"
  by (simp add: lookupProperty_def)

lemma templates_employeeAttendance: "templates ''employeeAttendance'' = Some employeeAttendance"
  by (simp add: templates_def)

lemma generateChart_named:
  assumes "selectChartTemplate selectionOut (ci_context inp) = Inr name"
    and "templates name = Some t"
  shows "generateChart inp selectionOut = Inr (Template t)"
  using assms by (simp add: generateChart_def lookupProperty_own jsonCopy_def)

lemma keywordBasedSelection_template:
  "\<exists>chosen picked. keywordBasedSelection (Some q) = Inr chosen \<and> templates chosen = Some picked"
  by (simp add: keywordBasedSelection_def Let_def templates_def)

lemma keywordBasedSelection_default:
  assumes "\<forall>kw\<in>set selectionKeywords. \<not> includesStr (toLowerCase q) kw"
  shows "keywordBasedSelection (Some q) = Inr ''employeeAttendance''"
  using assms by (simp add: keywordBasedSelection_def selectionKeywords_def Let_def)

lemma lower_leave_chart: "toLowerCase ''Show my leave chart'' = ''show my leave chart''"
  by (simp add: toLowerCase_def toLowerChar_def)

lemma lower_headcount: "toLowerCase ''Plot the headcount'' = ''plot the headcount''"
  by (simp add: toLowerCase_def toLowerChar_def)

text \<open>
  The names the catalog inherits: a function cannot be copied, the \<open>catch\<close> block
  answers with the default template; for \<open>__proto__\<close> the copy is the empty object.
\<close>

lemma generateChart_inherited:
  "generateChart inp (Inr (Some ''constructor'')) = Inr (Template employeeAttendance)
   \<and> generateChart inp (Inr (Some ''__proto__'')) = Inr EmptyObject"
proof -
  have a: "lookupProperty templates ''constructor'' = Some InheritedFunction"
    by (simp add: lookupProperty_def templates_def objectPrototypeFunctions_def)
  have b: "lookupProperty templates ''__proto__'' = Some ObjectPrototype"
    by (simp add: lookupProperty_def templates_def)
  show ?thesis
    by (simp add: generateChart_def selectChartTemplate_def a b jsonCopy_def)
qed

text \<open>
  C10 as stated fails where it says that a failed selection by the language model
  yields the default template: the \<open>catch\<close> block of \<open>selectChartTemplate\<close> selects by
  keyword, and a request that mentions leave gets the leave-balance chart.
\<close>

theorem generateChart_default_counterexample:
  "generateChart \<lparr>ci_context = Some ''Show my leave chart'', ci_ragContext = None\<rparr>
     (Inl ''quota exceeded'') = Inr (Template leaveBalance)
   \<and> generateChart \<lparr>ci_context = Some ''Show my leave chart'', ci_ragContext = None\<rparr>
     (Inl ''quota exceeded'') \<noteq> Inr (Template employeeAttendance)"
proof -
  have k: "keywordBasedSelection (Some ''Show my leave chart'') = Inr ''leaveBalance''"
    by (simp add: keywordBasedSelection_def lower_leave_chart)
  have s: "selectChartTemplate (Inl ''quota exceeded'')
      (ci_context \<lparr>ci_context = Some ''Show my leave chart'', ci_ragContext = None\<rparr>)
      = Inr ''leaveBalance''"
    by (simp add: selectChartTemplate_def k)
  have t: "templates ''leaveBalance'' = Some leaveBalance"
    by (simp add: templates_def)
  show ?thesis
    using generateChart_named [OF s t] by simp
qed

text \<open>
  C10, amended. \<open>generateChart\<close> always resolves to a chart configuration. A template
  name of the catalog gives that template; a name that is no property of the catalog
  object, or a reply without a name, gives \<open>employeeAttendance\<close>. When the language
  model fails the template is chosen by keyword, which is \<open>employeeAttendance\<close> when
  none of the other templates' keywords occurs in the request; an error inside that
  choice gives \<open>employeeAttendance\<close> too. So \<open>chartToolNode\<close> never takes its error
  handler: it reports \<open>chart = true\<close> with a chart configuration and no error.
\<close>

theorem generateChart_total:
  "(\<exists>c. generateChart inp selectionOut = Inr c)
   \<and> (selectionOut = Inr (Some name) \<and> templates name = Some t
        \<longrightarrow> generateChart inp selectionOut = Inr (Template t))
   \<and> (selectionOut = Inr (Some name) \<and> lookupProperty templates name = None
        \<longrightarrow> generateChart inp selectionOut = Inr (Template employeeAttendance))
   \<and> (selectionOut = Inr None
        \<longrightarrow> generateChart inp selectionOut = Inr (Template employeeAttendance))
   \<and> (selectionOut = Inl e \<and> ci_context inp = None
        \<longrightarrow> generateChart inp selectionOut = Inr (Template employeeAttendance))
   \<and> (selectionOut = Inl e \<and> ci_context inp = Some q
        \<longrightarrow> (\<exists>chosen picked. keywordBasedSelection (Some q) = Inr chosen
              \<and> templates chosen = Some picked
              \<and> generateChart inp selectionOut = Inr (Template picked)))
   \<and> (selectionOut = Inl e \<and> ci_context inp = Some q
        \<and> (\<forall>kw\<in>set selectionKeywords. \<not> includesStr (toLowerCase q) kw)
        \<longrightarrow> generateChart inp selectionOut = Inr (Template employeeAttendance))
   \<and> u_references (chartToolNode (generateChart inp selectionOut))
        = Some \<lparr>rag = False, chart = True\<rparr>
   \<and> u_chartConfig (chartToolNode (generateChart inp selectionOut)) \<noteq> None
   \<and> u_errors (chartToolNode (generateChart inp selectionOut)) = None"
proof -
  have known: "selectionOut = Inr (Some name) \<and> templates name = Some t
        \<longrightarrow> generateChart inp selectionOut = Inr (Template t)"
  proof (intro impI, elim conjE)
    assume o: "selectionOut = Inr (Some name)" and t: "templates name = Some t"
    have "name \<noteq> []"
      using t by (auto simp: templates_def split: if_splits)
    then have "selectChartTemplate selectionOut (ci_context inp) = Inr name"
      using t by (simp add: selectChartTemplate_def o lookupProperty_own)
    then show "generateChart inp selectionOut = Inr (Template t)"
      using t by (rule generateChart_named)
  qed
  have unknown: "selectionOut = Inr (Some name) \<and> lookupProperty templates name = None
        \<longrightarrow> generateChart inp selectionOut = Inr (Template employeeAttendance)"
  proof (intro impI, elim conjE)
    assume o: "selectionOut = Inr (Some name)" and n: "lookupProperty templates name = None"
    have "selectChartTemplate selectionOut (ci_context inp) = Inr ''employeeAttendance''"
      by (simp add: selectChartTemplate_def o n)
    then show "generateChart inp selectionOut = Inr (Template employeeAttendance)"
      using templates_employeeAttendance by (rule generateChart_named)
  qed
  have missing: "selectionOut = Inr None
        \<longrightarrow> generateChart inp selectionOut = Inr (Template employeeAttendance)"
  proof
    assume o: "selectionOut = Inr None"
    have "selectChartTemplate selectionOut (ci_context inp) = Inr ''employeeAttendance''"
      by (simp add: selectChartTemplate_def o)
    then show "generateChart inp selectionOut = Inr (Template employeeAttendance)"
      using templates_employeeAttendance by (rule generateChart_named)
  qed
  have internal: "selectionOut = Inl e \<and> ci_context inp = None
        \<longrightarrow> generateChart inp selectionOut = Inr (Template employeeAttendance)"
    by (simp add: generateChart_def selectChartTemplate_def keywordBasedSelection_def)
  have bykw: "selectionOut = Inl e \<and> ci_context inp = Some q
        \<longrightarrow> (\<exists>chosen picked. keywordBasedSelection (Some q) = Inr chosen
              \<and> templates chosen = Some picked
              \<and> generateChart inp selectionOut = Inr (Template picked))"
  proof (intro impI, elim conjE)
    assume o: "selectionOut = Inl e" and c: "ci_context inp = Some q"
    obtain chosen picked where k: "keywordBasedSelection (Some q) = Inr chosen"
      "templates chosen = Some picked"
      using keywordBasedSelection_template by blast
    have "selectChartTemplate selectionOut (ci_context inp) = Inr chosen"
      by (simp add: selectChartTemplate_def o c k)
    then have "generateChart inp selectionOut = Inr (Template picked)"
      using k(2) by (rule generateChart_named)
    then show "\<exists>chosen picked. keywordBasedSelection (Some q) = Inr chosen
              \<and> templates chosen = Some picked
              \<and> generateChart inp selectionOut = Inr (Template picked)"
      using k by blast
  qed
  have nokw: "selectionOut = Inl e \<and> ci_context inp = Some q
        \<and> (\<forall>kw\<in>set selectionKeywords. \<not> includesStr (toLowerCase q) kw)
        \<longrightarrow> generateChart inp selectionOut = Inr (Template employeeAttendance)"
  proof (intro impI, elim conjE)
    assume o: "selectionOut = Inl e" and c: "ci_context inp = Some q"
      and n: "\<forall>kw\<in>set selectionKeywords. \<not> includesStr (toLowerCase q) kw"
    have "selectChartTemplate selectionOut (ci_context inp) = Inr ''employeeAttendance''"
      using keywordBasedSelection_default [OF n] by (simp add: selectChartTemplate_def o c)
    then show "generateChart inp selectionOut = Inr (Template employeeAttendance)"
      using templates_employeeAttendance by (rule generateChart_named)
  qed
  obtain c where c: "generateChart inp selectionOut = Inr c"
    using generateChart_resolves by blast
  have node: "u_references (chartToolNode (generateChart inp selectionOut))
        = Some \<lparr>rag = False, chart = True\<rparr>
   \<and> u_chartConfig (chartToolNode (generateChart inp selectionOut)) \<noteq> None
   \<and> u_errors (chartToolNode (generateChart inp selectionOut)) = None"
    by (simp add: c chartToolNode_def noUpdate_def)
  show ?thesis
    using c known unknown missing internal bykw nokw node by blast
qed

theorem generateChart_total_witness:
  "templates ''wellnessUsage'' = Some wellnessUsage
   \<and> generateChart \<lparr>ci_context = Some ''Plot the headcount'', ci_ragContext = None\<rparr>
       (Inr (Some ''wellnessUsage'')) = Inr (Template wellnessUsage)
   \<and> lookupProperty templates ''salaryHistogram'' = None
   \<and> generateChart \<lparr>ci_context = Some ''Plot the headcount'', ci_ragContext = None\<rparr>
       (Inr (Some ''salaryHistogram'')) = Inr (Template employeeAttendance)
   \<and> generateChart \<lparr>ci_context = Some ''Plot the headcount'', ci_ragContext = None\<rparr>
       (Inr None) = Inr (Template employeeAttendance)
   \<and> generateChart \<lparr>ci_context = None, ci_ragContext = None\<rparr>
       (Inl ''quota exceeded'') = Inr (Template employeeAttendance)
   \<and> list_all (\<lambda>kw. \<not> includesStr (toLowerCase ''Plot the headcount'') kw) selectionKeywords
   \<and> generateChart \<lparr>ci_context = Some ''Plot the headcount'', ci_ragContext = None\<rparr>
       (Inl ''quota exceeded'') = Inr (Template employeeAttendance)"
proof -
  have t: "templates ''wellnessUsage'' = Some wellnessUsage"
    "lookupProperty templates ''salaryHistogram'' = None"
    by (simp_all add: templates_def lookupProperty_def objectPrototypeFunctions_def)
  have k: "\<forall>kw\<in>set selectionKeywords. \<not> includesStr (toLowerCase ''Plot the headcount'') kw"
    by (simp add: selectionKeywords_def lower_headcount)
  have k': "list_all (\<lambda>kw. \<not> includesStr (toLowerCase ''Plot the headcount'') kw)
      selectionKeywords"
    using k by (simp add: list_all_iff)
  show ?thesis
    using t k k'
      generateChart_total [of "\<lparr>ci_context = Some ''Plot the headcount'', ci_ragContext = None\<rparr>"
        "Inr (Some ''wellnessUsage'')" "''wellnessUsage''" wellnessUsage]
      generateChart_total [of "\<lparr>ci_context = Some ''Plot the headcount'', ci_ragContext = None\<rparr>"
        "Inr (Some ''salaryHistogram'')" "''salaryHistogram''"]
      generateChart_total [of "\<lparr>ci_context = Some ''Plot the headcount'', ci_ragContext = None\<rparr>"
        "Inr None"]
      generateChart_total [of "\<lparr>ci_context = None, ci_ragContext = None\<rparr>"
        "Inl ''quota exceeded''" _ _ "''quota exceeded''"]
      generateChart_total [of "\<lparr>ci_context = Some ''Plot the headcount'', ci_ragContext = None\<rparr>"
        "Inl ''quota exceeded''" _ _ "''quota exceeded''" "''Plot the headcount''"]
    by simp
qed

section \<open>Facts about the delegating agent\<close>

text \<open>
  C3. A state whose confidence is below 0.7 is routed to the direct-response node
  whatever its intent. From 0.7 on, the intent decides: \<open>rag\<close> goes to the retrieval
  node, \<open>chart\<close> to the chart node, \<open>both\<close> to the combined node and \<open>direct\<close> to the
  direct-response node.
\<close>

theorem routeByIntent_policy:
  "(s_confidence st < 0.7 \<longrightarrow> routeByIntent st = ToDirectResponseNode)
   \<and> (0.7 \<le> s_confidence st \<longrightarrow>
        (s_intent st = ''rag'' \<longrightarrow> routeByIntent st = ToRagAgentNode)
      \<and> (s_intent st = ''chart'' \<longrightarrow> routeByIntent st = ToChartToolNode)
      \<and> (s_intent st = ''both'' \<longrightarrow> routeByIntent st = ToRagAndChartNode)
      \<and> (s_intent st = ''direct'' \<longrightarrow> routeByIntent st = ToDirectResponseNode))"
  by (simp add: routeByIntent_def routeMap_def lookupProperty_def confidenceThreshold_def)

theorem routeByIntent_policy_witness:
  "s_confidence ((initialState ''q'')\<lparr>s_intent := ''both'', s_confidence := 0.69\<rparr>) < 0.7
   \<and> routeByIntent ((initialState ''q'')\<lparr>s_intent := ''both'', s_confidence := 0.69\<rparr>)
       = ToDirectResponseNode
   \<and> 0.7 \<le> s_confidence ((initialState ''q'')\<lparr>s_intent := ''rag'', s_confidence := 0.7\<rparr>)
   \<and> routeByIntent ((initialState ''q'')\<lparr>s_intent := ''rag'', s_confidence := 0.7\<rparr>)
       = ToRagAgentNode
   \<and> routeByIntent ((initialState ''q'')\<lparr>s_intent := ''chart'', s_confidence := 0.7\<rparr>)
       = ToChartToolNode
   \<and> routeByIntent ((initialState ''q'')\<lparr>s_intent := ''both'', s_confidence := 0.7\<rparr>)
       = ToRagAndChartNode
   \<and> routeByIntent ((initialState ''q'')\<lparr>s_intent := ''direct'', s_confidence := 1\<rparr>)
       = ToDirectResponseNode"
  using
    routeByIntent_policy [of "(initialState ''q'')\<lparr>s_intent := ''both'', s_confidence := 0.69\<rparr>"]
    routeByIntent_policy [of "(initialState ''q'')\<lparr>s_intent := ''rag'', s_confidence := 0.7\<rparr>"]
    routeByIntent_policy [of "(initialState ''q'')\<lparr>s_intent := ''chart'', s_confidence := 0.7\<rparr>"]
    routeByIntent_policy [of "(initialState ''q'')\<lparr>s_intent := ''both'', s_confidence := 0.7\<rparr>"]
    routeByIntent_policy [of "(initialState ''q'')\<lparr>s_intent := ''direct'', s_confidence := 1\<rparr>"]
  by simp

text \<open>
  An intent that is a name inherited from \<open>Object.prototype\<close> is no key of the four
  above: at a confidence of 0.7 or more the router then returns no node name, no
  branch runs, and the graph ends with the state \<open>analyzeIntent\<close> left.
\<close>

lemma routeByIntent_inherited:
  "routeByIntent ((initialState ''q'')\<lparr>s_intent := ''constructor'', s_confidence := 0.9\<rparr>)
     = NotANodeName
   \<and> routeByIntent ((initialState ''q'')\<lparr>s_intent := ''__proto__'', s_confidence := 0.9\<rparr>)
     = NotANodeName
   \<and> routeByIntent ((initialState ''q'')\<lparr>s_intent := ''summarize'', s_confidence := 0.9\<rparr>)
     = ToDirectResponseNode"
  by (simp add: routeByIntent_def routeMap_def lookupProperty_def objectPrototypeFunctions_def
      confidenceThreshold_def)

lemma matchesAny_chartKeywords:
  "matchesAny visualizationWords q
     \<longleftrightarrow> list_ex (\<lambda>kw. includesStr (toLowerCase q) kw) chartKeywords"
proof -
  have "set chartKeywords = visualizationWords"
    by (simp add: chartKeywords_def visualizationWords_def)
  then show ?thesis
    by (simp add: matchesAny_def list_ex_iff includesStr_iff)
qed

lemma matchesAny_ragKeywords:
  "matchesAny knowledgeWords q
     \<longleftrightarrow> list_ex (\<lambda>kw. includesStr (toLowerCase q) kw) ragKeywords"
proof -
  have "set ragKeywords = knowledgeWords"
    by (simp add: ragKeywords_def knowledgeWords_def)
  then show ?thesis
    by (simp add: matchesAny_def list_ex_iff includesStr_iff)
qed

lemma fallback_keywordRule:
  "fallbackIntentClassification q =
     \<lparr>c_intent = Some (fst (keywordRule q)), c_confidence = Some (snd (keywordRule q))\<rparr>"
  by (simp add: fallbackIntentClassification_def keywordRule_def matchesAny_chartKeywords
      matchesAny_ragKeywords Let_def)

lemma fallback_confidence:
  "c_confidence (fallbackIntentClassification q) = Some 0.6
   \<or> c_confidence (fallbackIntentClassification q) = Some 0.5"
  by (simp add: fallbackIntentClassification_def Let_def)

lemma lower_attendance_chart:
  "toLowerCase ''Show me the Attendance chart'' = ''show me the attendance chart''"
  by (simp add: toLowerCase_def toLowerChar_def)

lemma lower_explain_and_show:
  "toLowerCase ''Explain the leave policy and show me a chart''
     = ''explain the leave policy and show me a chart''"
  by (simp add: toLowerCase_def toLowerChar_def)

text \<open>
  C8. \<open>analyzeIntent\<close> never fails. When the call to the language model throws, which
  covers a failed call and a reply that cannot be parsed, it returns the keyword rule
  of the specification applied to the query: \<open>both\<close> with 0.6 when both word sets
  match the lower-cased query, \<open>chart\<close> with 0.6 when only the visualization words
  match, \<open>rag\<close> with 0.6 when only the knowledge words match, \<open>direct\<close> with 0.5
  otherwise.
\<close>

theorem analyzeIntent_keyword_fallback:
  "analyzeIntent (Inl e) st =
     noUpdate\<lparr>u_intent := Some (fst (keywordRule (s_input st))),
       u_confidence := Some (snd (keywordRule (s_input st)))\<rparr>
   \<and> keywordRule q \<in> {(''both'', 0.6), (''chart'', 0.6), (''rag'', 0.6), (''direct'', 0.5)}"
  by (simp add: analyzeIntent_def fallback_keywordRule Let_def) (simp add: keywordRule_def)

theorem analyzeIntent_keyword_fallback_witness:
  "keywordRule ''Show me the Attendance chart'' = (''chart'', 0.6)
   \<and> analyzeIntent (Inl ''503 Service Unavailable'')
       (initialState ''Show me the Attendance chart'')
     = noUpdate\<lparr>u_intent := Some ''chart'', u_confidence := Some 0.6\<rparr>"
proof -
  have k: "keywordRule ''Show me the Attendance chart'' = (''chart'', 0.6)"
    by (simp add: keywordRule_def matchesAny_chartKeywords matchesAny_ragKeywords
        chartKeywords_def ragKeywords_def lower_attendance_chart)
  show ?thesis
    using analyzeIntent_keyword_fallback [of "''503 Service Unavailable''"
        "initialState ''Show me the Attendance chart''"]
    by (simp add: k initialState_def)
qed

text \<open>
  C9. The keyword fallback returns a confidence of at most 0.6, which is below the
  threshold 0.7 of the router. So after a failed classification the router selects
  the direct-response node, whatever intent the fallback computed: no retrieval and
  no chart generation runs, and the response object refers to neither.
\<close>

theorem fallback_routes_direct:
  "(\<exists>c. c_confidence (fallbackIntentClassification q) = Some c \<and> c \<le> 0.6
        \<and> c < confidenceThreshold)
   \<and> routeByIntent (applyUpdate st (analyzeIntent (Inl e) st)) = ToDirectResponseNode
   \<and> (classifyOut w = Inl e \<longrightarrow>
        beforeFormat w (initialState q)
          = applyUpdate (applyUpdate (initialState q)
              (analyzeIntent (Inl e) (initialState q))) (directResponseNode (directOut w))
      \<and> references (assembled w q) = \<lparr>rag = False, chart = False\<rparr>
      \<and> fileIds (assembled w q) = None \<and> chartConfig (assembled w q) = None
      \<and> retrieved w q = [])"
proof -
  have r: "routeByIntent (applyUpdate st (analyzeIntent (Inl e) st)) = ToDirectResponseNode"
    for st
  proof -
    have "s_confidence (applyUpdate st (analyzeIntent (Inl e) st)) < confidenceThreshold"
      using fallback_confidence [of "s_input st"]
      by (auto simp: applyUpdate_def analyzeIntent_def reducer_def Let_def noUpdate_def
          confidenceThreshold_def)
    then show ?thesis
      by (simp add: routeByIntent_def)
  qed
  have c: "\<exists>c. c_confidence (fallbackIntentClassification q) = Some c \<and> c \<le> 0.6
        \<and> c < confidenceThreshold"
    using fallback_confidence [of q] by (auto simp: confidenceThreshold_def)
  have b: "classifyOut w = Inl e \<Longrightarrow> beforeFormat w (initialState q)
          = applyUpdate (applyUpdate (initialState q)
              (analyzeIntent (Inl e) (initialState q))) (directResponseNode (directOut w))"
    by (simp add: beforeFormat_def runBranch_def r Let_def)
  have d: "classifyOut w = Inl e \<Longrightarrow>
      references (assembled w q) = \<lparr>rag = False, chart = False\<rparr>
      \<and> fileIds (assembled w q) = None \<and> chartConfig (assembled w q) = None
      \<and> retrieved w q = []"
    by (simp add: assembled_def retrieved_def b)
       (auto simp: directResponseNode_def applyUpdate_def reducer_def noUpdate_def
         formatResponseNode_def initialState_def analyzeIntent_def Let_def split: sum.splits)
  show ?thesis using r c b d by blast
qed

theorem fallback_routes_direct_witness:
  "classifyOut classifierDownWorld = Inl ''503 Service Unavailable''
   \<and> c_intent (fallbackIntentClassification ''Explain the leave policy and show me a chart'')
       = Some ''both''
   \<and> references (assembled classifierDownWorld ''Explain the leave policy and show me a chart'')
       = \<lparr>rag = False, chart = False\<rparr>
   \<and> fileIds (assembled classifierDownWorld ''Explain the leave policy and show me a chart'')
       = None
   \<and> chartConfig (assembled classifierDownWorld ''Explain the leave policy and show me a chart'')
       = None"
proof -
  have w: "classifyOut classifierDownWorld = Inl ''503 Service Unavailable''"
    by (simp add: classifierDownWorld_def leaveWorld_def)
  have i: "c_intent (fallbackIntentClassification ''Explain the leave policy and show me a chart'')
       = Some ''both''"
    by (simp add: fallbackIntentClassification_def lower_explain_and_show chartKeywords_def
        ragKeywords_def)
  show ?thesis
    using w i
      fallback_routes_direct [of "''Explain the leave policy and show me a chart''" _
        "''503 Service Unavailable''" classifierDownWorld]
    by simp
qed

text \<open>
  C7 as stated fails. When the chart call fails, \<open>ragAndChartNode\<close> drops the result
  of the retrieval that ran alongside and queries again. If the second query fails
  the response has both flags false; if it finds nothing, the answer and the file ids
  of the first retrieval are gone.
\<close>

theorem ragAndChartNode_degrade_counterexample:
  "u_references (ragAndChartNode (Inr leaveResult) (Inl ''chart failed'') (Inl ''store down''))
     = Some \<lparr>rag = False, chart = False\<rparr>
   \<and> u_answer (ragAndChartNode (Inr leaveResult) (Inl ''chart failed'') (Inr apologyResult))
     \<noteq> Some (r_answer leaveResult)
   \<and> u_fileIds (ragAndChartNode (Inr leaveResult) (Inl ''chart failed'') (Inr apologyResult))
     = Some []"
  by (simp add: ragAndChartNode_def noUpdate_def leaveResult_def apologyResult_def
      hardCodedApology_def)

text \<open>
  C7, amended. In the combined node, when the chart call fails the node calls the
  retrieval agent a second time. If that call succeeds, the request degrades to
  retrieval only: the references are \<open>rag = true, chart = false\<close>, the answer is the
  one of the second retrieval, the error \<open>Chart generation failed\<close> is recorded, the
  response object carries that retrieval's file ids when there are any and no chart
  configuration, and the node does not fail.
\<close>

theorem ragAndChartNode_degrades:
  "chartOut = Inl e \<and> ragAgain = Inr r \<longrightarrow>
     ragAndChartNode ragOut chartOut ragAgain
       = noUpdate\<lparr>u_ragResults := Some r, u_answer := Some (r_answer r),
           u_references := Some \<lparr>rag = True, chart = False\<rparr>,
           u_fileIds := Some (r_fileIds r),
           u_errors := Some [''Chart generation failed'']\<rparr>
   \<and> references (formatResponseNode (applyUpdate st (ragAndChartNode ragOut chartOut ragAgain)))
       = \<lparr>rag = True, chart = False\<rparr>
   \<and> answer (formatResponseNode (applyUpdate st (ragAndChartNode ragOut chartOut ragAgain)))
       = (if r_answer r \<noteq> [] then r_answer r else ''No answer generated.'')
   \<and> fileIds (formatResponseNode (applyUpdate st (ragAndChartNode ragOut chartOut ragAgain)))
       = (if r_fileIds r \<noteq> [] then Some (r_fileIds r) else None)
   \<and> chartConfig (formatResponseNode (applyUpdate st (ragAndChartNode ragOut chartOut ragAgain)))
       = None"
  by (cases ragOut)
     (simp_all add: ragAndChartNode_def noUpdate_def applyUpdate_def reducer_def
       formatResponseNode_def)

theorem ragAndChartNode_degrades_witness:
  "references (formatResponseNode (applyUpdate (initialState ''Explain leave and chart it'')
       (ragAndChartNode (Inr leaveResult) (Inl ''chart failed'') (Inr leaveResult))))
     = \<lparr>rag = True, chart = False\<rparr>
   \<and> answer (formatResponseNode (applyUpdate (initialState ''Explain leave and chart it'')
       (ragAndChartNode (Inr leaveResult) (Inl ''chart failed'') (Inr leaveResult))))
     = ''You have 20 days of paid annual leave.''
   \<and> fileIds (formatResponseNode (applyUpdate (initialState ''Explain leave and chart it'')
       (ragAndChartNode (Inr leaveResult) (Inl ''chart failed'') (Inr leaveResult))))
     = Some [''HR-001'']
   \<and> u_errors (ragAndChartNode (Inr leaveResult) (Inl ''chart failed'') (Inr leaveResult))
     = Some [''Chart generation failed'']"
proof -
  have l: "r_answer leaveResult = ''You have 20 days of paid annual leave.''"
    "r_fileIds leaveResult = [''HR-001'']"
    by (simp_all add: leaveResult_def)
  have h: "Inl ''chart failed'' = (Inl ''chart failed'' :: chart_config outcome)
      \<and> Inr leaveResult = (Inr leaveResult :: retrieval_result outcome)"
    by simp
  note t = ragAndChartNode_degrades [of "Inl ''chart failed''" "''chart failed''"
        "Inr leaveResult" leaveResult "Inr leaveResult"
        "initialState ''Explain leave and chart it''", THEN mp, OF h]
  have e: "u_errors (ragAndChartNode (Inr leaveResult) (Inl ''chart failed'') (Inr leaveResult))
     = Some [''Chart generation failed'']"
    using t [THEN conjunct1] by (simp add: noUpdate_def)
  have a: "answer (formatResponseNode (applyUpdate (initialState ''Explain leave and chart it'')
       (ragAndChartNode (Inr leaveResult) (Inl ''chart failed'') (Inr leaveResult))))
     = ''You have 20 days of paid annual leave.''"
    using t [THEN conjunct2, THEN conjunct2, THEN conjunct1] by (simp only: l) simp
  have f: "fileIds (formatResponseNode (applyUpdate (initialState ''Explain leave and chart it'')
       (ragAndChartNode (Inr leaveResult) (Inl ''chart failed'') (Inr leaveResult))))
     = Some [''HR-001'']"
    using t [THEN conjunct2, THEN conjunct2, THEN conjunct2, THEN conjunct1]
    by (simp only: l) simp
  show ?thesis
    using t [THEN conjunct2, THEN conjunct1] e a f by (simp only:)
qed

section \<open>The response object\<close>

lemma classified_untouched:
  "s_ragResults (applyUpdate (initialState q) (analyzeIntent out (initialState q))) = None
   \<and> s_chartConfig (applyUpdate (initialState q) (analyzeIntent out (initialState q))) = None"
  by (simp add: applyUpdate_def analyzeIntent_def initialState_def noUpdate_def reducer_def
      Let_def split: sum.splits)

text \<open>
  What the node chosen by the router returns: retrieval is reported only together
  with a retrieval result and its file ids, a chart only together with a chart
  configuration.
\<close>

lemma runBranch_shape:
  "runBranch w st = noUpdate
   \<or> (\<exists>a b. u_references (runBranch w st) = Some \<lparr>rag = a, chart = b\<rparr>
     \<and> (a \<longrightarrow> (\<exists>rr. u_ragResults (runBranch w st) = Some rr
               \<and> u_fileIds (runBranch w st) = Some (extractFileIds (r_sources rr))))
     \<and> (\<not> a \<longrightarrow> u_ragResults (runBranch w st) = None)
     \<and> (b \<longleftrightarrow> u_chartConfig (runBranch w st) \<noteq> None))"
proof -
  obtain r where r: "query (ragEnv w) (s_input st) = Inr r"
    using query_resolves by blast
  obtain c where c: "generateChart \<lparr>ci_context = Some (s_input st), ci_ragContext = None\<rparr>
      (chartSelectionOut w) = Inr c"
    using generateChart_resolves by blast
  have f: "r_fileIds r = extractFileIds (r_sources r)"
    using r by (rule query_fileIds)
  show ?thesis
    by (cases "routeByIntent st"; cases "directOut w")
       (auto simp: runBranch_def r c f ragAgentNode_def chartToolNode_def ragAndChartNode_def
         directResponseNode_def noUpdate_def)
qed

lemma beforeFormat_shape:
  "(rag (s_references (beforeFormat w (initialState q)))
      \<longrightarrow> (\<exists>rr. s_ragResults (beforeFormat w (initialState q)) = Some rr
             \<and> s_fileIds (beforeFormat w (initialState q)) = extractFileIds (r_sources rr)))
   \<and> (\<not> rag (s_references (beforeFormat w (initialState q)))
      \<longrightarrow> s_ragResults (beforeFormat w (initialState q)) = None)
   \<and> (chart (s_references (beforeFormat w (initialState q)))
      \<longleftrightarrow> s_chartConfig (beforeFormat w (initialState q)) \<noteq> None)"
proof -
  define s1 where
    "s1 = applyUpdate (initialState q) (analyzeIntent (classifyOut w) (initialState q))"
  have s1: "s_ragResults s1 = None" "s_chartConfig s1 = None"
    using classified_untouched [of q "classifyOut w"] by (simp_all add: s1_def)
  have bf: "beforeFormat w (initialState q) = applyUpdate s1 (runBranch w s1)"
    by (simp add: beforeFormat_def s1_def Let_def)
  have i: "s_references s1 = \<lparr>rag = False, chart = False\<rparr>"
    by (simp add: s1_def applyUpdate_def analyzeIntent_def initialState_def noUpdate_def
        reducer_def Let_def split: sum.splits)
  consider (none) "runBranch w s1 = noUpdate"
    | (node) a b where "u_references (runBranch w s1) = Some \<lparr>rag = a, chart = b\<rparr>"
      "a \<longrightarrow> (\<exists>rr. u_ragResults (runBranch w s1) = Some rr
               \<and> u_fileIds (runBranch w s1) = Some (extractFileIds (r_sources rr)))"
      "\<not> a \<longrightarrow> u_ragResults (runBranch w s1) = None"
      "b \<longleftrightarrow> u_chartConfig (runBranch w s1) \<noteq> None"
    using runBranch_shape [of w s1] by blast
  then show ?thesis
  proof cases
    case none
    then show ?thesis
      using s1 i by (simp add: bf applyUpdate_def reducer_def noUpdate_def)
  next
    case node
    then show ?thesis
      using s1 by (auto simp: bf applyUpdate_def reducer_def)
  qed
qed

lemmas run_defs = process_def graphInvoke_def beforeFormat_def runBranch_def initialState_def
  formatResponseNode_def asUpdate_def stateObject_def errorResponse_def assembled_def
  retrieved_def

lemmas node_defs = ragAgentNode_def chartToolNode_def ragAndChartNode_def
  directResponseNode_def noUpdate_def applyUpdate_def reducer_def analyzeIntent_def
  routeByIntent_def routeMap_def lookupProperty_def confidenceThreshold_def

lemmas rag_defs = query_def vectorSearch_def fallbackSearch_def extractSources_def
  extractFileIds_def calculateConfidence_def synthesizeAnswer_def handleNoResults_def
  distanceOrZero_def

lemmas example_defs = leaveRecord_def untaggedRecord_def leaveEnv_def emptyEnv_def
  leaveWorld_def directWorld_def untaggedWorld_def

text \<open>
  C1 as stated fails where it ties the file ids to the number of records:
  \<open>extractFileIds\<close> drops empty ids, so a retrieval that found one record without a
  file id leads to a response object with \<open>rag = true\<close> and no \<open>fileIds\<close>.
\<close>

theorem fileIds_iff_records_counterexample:
  "\<not> (fileIds (assembled untaggedWorld ''How do I reset my password?'') \<noteq> None
        \<longleftrightarrow> rag (references (assembled untaggedWorld ''How do I reset my password?''))
             \<and> retrieved untaggedWorld ''How do I reset my password?'' \<noteq> [])"
  by (simp add: run_defs node_defs rag_defs example_defs)

text \<open>
  C1, amended. In every response object that \<open>formatResponseNode\<close> builds,
  \<open>fileIds\<close> is present if and only if \<open>references.rag\<close> is true and the retrieval
  produced at least one record with a non-empty file id, and it then holds the
  distinct non-empty file ids of the records; \<open>chartConfig\<close> is present if and only if
  \<open>references.chart\<close> is true, and it is the chart configuration that was produced.
  The error response of \<open>process\<close> has neither field and both flags false. The
  \<open>references\<close> object with its two boolean flags is part of every response.
\<close>

theorem response_fields_iff_references:
  "(fileIds (assembled w q) \<noteq> None
      \<longleftrightarrow> rag (references (assembled w q))
          \<and> (\<exists>x\<in>set (retrieved w q). p_fileId (properties x) \<noteq> []))
   \<and> (fileIds (assembled w q) \<noteq> None
      \<longrightarrow> fileIds (assembled w q) = Some (extractFileIds (retrieved w q)))
   \<and> (chartConfig (assembled w q) \<noteq> None \<longleftrightarrow> chart (references (assembled w q)))
   \<and> chartConfig (assembled w q) = s_chartConfig (beforeFormat w (initialState q))
   \<and> fileIds (errorResponse e) = None \<and> chartConfig (errorResponse e) = None
   \<and> references (errorResponse e) = \<lparr>rag = False, chart = False\<rparr>"
proof -
  define st where "st = beforeFormat w (initialState q)"
  have sh: "rag (s_references st)
      \<longrightarrow> (\<exists>rr. s_ragResults st = Some rr \<and> s_fileIds st = extractFileIds (r_sources rr))"
    "\<not> rag (s_references st) \<longrightarrow> s_ragResults st = None"
    "chart (s_references st) \<longleftrightarrow> s_chartConfig st \<noteq> None"
    using beforeFormat_shape [of w q] by (simp_all add: st_def)
  have a: "assembled w q = formatResponseNode st"
    by (simp add: assembled_def st_def)
  have r: "retrieved w q
      = (case s_ragResults st of None \<Rightarrow> [] | Some results \<Rightarrow> r_sources results)"
    by (simp add: retrieved_def st_def)
  have 1: "fileIds (assembled w q) \<noteq> None
      \<longleftrightarrow> rag (references (assembled w q))
          \<and> (\<exists>x\<in>set (retrieved w q). p_fileId (properties x) \<noteq> [])"
  proof (cases "rag (s_references st)")
    case True
    then obtain rr where rr: "s_ragResults st = Some rr"
      "s_fileIds st = extractFileIds (r_sources rr)"
      using sh(1) by blast
    show ?thesis
      using True extractFileIds_Nil_iff [of "r_sources rr"]
      by (simp add: a r rr formatResponseNode_def)
  next
    case False
    then show ?thesis
      by (simp add: a formatResponseNode_def)
  qed
  have 2: "fileIds (assembled w q) \<noteq> None
      \<longrightarrow> fileIds (assembled w q) = Some (extractFileIds (retrieved w q))"
    using sh(1) by (auto simp: a r formatResponseNode_def)
  have 3: "chartConfig (assembled w q) \<noteq> None \<longleftrightarrow> chart (references (assembled w q))"
    using sh(3) by (auto simp: a formatResponseNode_def)
  have 4: "chartConfig (assembled w q) = s_chartConfig st"
    using sh(3) by (auto simp: a formatResponseNode_def)
  show ?thesis
    using 1 2 3 4 by (simp add: errorResponse_def st_def)
qed

theorem response_fields_iff_references_witness:
  "rag (references (assembled leaveWorld ''What is the company leave policy?''))
   \<and> (\<exists>x\<in>set (retrieved leaveWorld ''What is the company leave policy?'').
         p_fileId (properties x) \<noteq> [])
   \<and> fileIds (assembled leaveWorld ''What is the company leave policy?'') = Some [''HR-001'']
   \<and> \<not> chart (references (assembled leaveWorld ''What is the company leave policy?''))
   \<and> chartConfig (assembled leaveWorld ''What is the company leave policy?'') = None"
proof -
  have g: "rag (references (assembled leaveWorld ''What is the company leave policy?''))"
    "\<not> chart (references (assembled leaveWorld ''What is the company leave policy?''))"
    by (simp_all add: run_defs node_defs rag_defs example_defs)
  have s: "retrieved leaveWorld ''What is the company leave policy?'' = [leaveRecord]"
    by (simp add: run_defs node_defs rag_defs example_defs)
  have x: "extractFileIds [leaveRecord] = [''HR-001'']"
    by (simp add: extractFileIds_def leaveRecord_def)
  have p: "p_fileId (properties leaveRecord) \<noteq> []"
    by (simp add: leaveRecord_def)
  show ?thesis
    using g p
      response_fields_iff_references [of leaveWorld "''What is the company leave policy?''"]
    by (simp add: s x)
qed

text \<open>
  C2. \<open>process\<close> returns what \<open>graph.invoke\<close> resolves to, which is the final state of
  the graph and not the object built by \<open>formatResponseNode\<close>. For a direct answer
  that state carries \<open>fileIds = []\<close> next to \<open>rag = false\<close>, and
  \<open>validateResponseContract\<close> rejects it.
\<close>

theorem process_direct_violates_contract:
  "process directWorld ''What is 5 x 7?''
     = \<lparr>answer = ''5 x 7 equals 35'', references = \<lparr>rag = False, chart = False\<rparr>,
        fileIds = Some [], chartConfig = None,
        otherKeys = [''input'', ''intent'', ''confidence'', ''ragResults'', ''errors'']\<rparr>
   \<and> contractErrors (process directWorld ''What is 5 x 7?'')
     = [''Contract violation: fileIds present but references.rag is false'']
   \<and> validateResponseContract (process directWorld ''What is 5 x 7?'')
     = Inl ''Response contract validation failed''"
  by (simp add: validateResponseContract_def contractErrors_def run_defs node_defs example_defs)

text \<open>
  What does hold of \<open>process\<close>: it returns an object for every input, and an error
  thrown by \<open>initialize\<close> or by \<open>graph.invoke\<close> is mapped to the error response, which
  passes the validator.
\<close>

lemma process_catches:
  "(initializeOut w = Inl e \<longrightarrow> process w q = errorResponse e)
   \<and> (initializeOut w = Inr u \<and> graphFault w = Some e \<longrightarrow> process w q = errorResponse e)
   \<and> validateResponseContract (errorResponse e) = Inr True"
  by (simp add: process_def graphInvoke_def errorResponse_def validateResponseContract_def
      contractErrors_def)

end
